theory Spec2Isabelle
  imports Complex_Main "HOL-Library.Word"
begin

section \<open>JavaScript strings and values\<close>

text \<open>
  A JavaScript string is a sequence of UTF-16 code units: \<open>length\<close>, \<open>substring\<close> and
  \<open>replace\<close> all count and cut in code units. A code point above U+FFFF is a pair of
  code units, a high surrogate followed by a low surrogate.
\<close>

type_synonym jsstring = "16 word list"

definition js :: "string \<Rightarrow> jsstring" where
  "js s = map of_char s"




text \<open>
  \<open>String.prototype.trim\<close> removes white space and line terminators from both ends.
\<close>

definition isWhiteSpace :: "16 word \<Rightarrow> bool" where
  "isWhiteSpace c =
     (List.member [0x9, 0xA, 0xB, 0xC, 0xD, 0x20, 0xA0, 0x1680, 0x2028, 0x2029,
                   0x202F, 0x205F, 0x3000, 0xFEFF] c
      \<or> (0x2000 \<le> c \<and> c \<le> 0x200A))"

definition trim :: "jsstring \<Rightarrow> jsstring" where
  "trim s = rev (dropWhile isWhiteSpace (rev (dropWhile isWhiteSpace s)))"

text \<open>
  \<open>s.replace(/c/g, r)\<close> for a one-character pattern \<open>c\<close> and a replacement \<open>r\<close> without
  dollar patterns: every occurrence of \<open>c\<close> becomes \<open>r\<close>, from left to right.
\<close>

definition replaceAll :: "16 word \<Rightarrow> jsstring \<Rightarrow> jsstring \<Rightarrow> jsstring" where
  "replaceAll c r s = concat (map (\<lambda>x. if x = c then r else [x]) s)"

text \<open>
  The score of a movie as the feed delivers it: absent (\<open>undefined\<close>), \<open>null\<close>, or a
  number. A finite double is a rational number; \<open>NaN\<close> is kept apart.
\<close>

datatype jsnumber = NaN | Finite rat

datatype jsvalue = Undefined | Null | Number jsnumber

fun show_nat :: "nat \<Rightarrow> jsstring" where
  "show_nat n =
     (if n < 10 then [48 + of_nat n]
      else show_nat (n div 10) @ [48 + of_nat (n mod 10)])"

text \<open>
  \<open>x.toFixed(1)\<close> for a finite \<open>x\<close> below \<open>10^21\<close> in magnitude: the sign, then the
  integer \<open>n\<close> with \<open>n / 10\<close> closest to \<open>|x|\<close> (the larger one on a tie), printed with
  one digit after the point.
\<close>

definition toFixed1 :: "rat \<Rightarrow> jsstring" where
  "toFixed1 x =
     (let n = nat \<lfloor>\<bar>x\<bar> * 10 + 1 / 2\<rfloor>
      in (if x < 0 then js ''-'' else []) @ show_nat (n div 10) @ js ''.'' @ show_nat (n mod 10))"

section \<open>Text helpers of the cards\<close>

text \<open>
  \<open>truncateText(text, maxLength)\<close>, the same body in \<open>SearchPage\<close>, \<open>NowPlayingPage\<close> and
  \<open>MovieCard\<close>. \<open>None\<close> is a \<open>null\<close> or \<open>undefined\<close> text.
\<close>

definition truncateText :: "jsstring option \<Rightarrow> nat \<Rightarrow> jsstring" where
  "truncateText text maxLength =
     (case text of
        None \<Rightarrow> []
      | Some t \<Rightarrow>
          if t = [] then []
          else if length t > maxLength then take maxLength t @ js ''...''
          else t)"

text \<open>\<open>MovieCard.truncateOverview\<close>; the limit is \<open>options.overviewLength\<close>.\<close>

definition truncateOverview :: "jsstring option \<Rightarrow> nat \<Rightarrow> jsstring" where
  "truncateOverview overview maxLength =
     (case overview of
        None \<Rightarrow> []
      | Some t \<Rightarrow>
          if t = [] then []
          else if length t \<le> maxLength then t
          else trim (take maxLength t) @ js ''...'')"

text \<open>
  \<open>MovieCard.escapeHtml\<close>: five global replacements, the ampersand first. The code
  units are \<open>&\<close> 0x26, \<open><\<close> 0x3C, \<open>>\<close> 0x3E, the double quote 0x22 and the single
  quote 0x27.
\<close>

definition escapeHtml :: "jsstring option \<Rightarrow> jsstring" where
  "escapeHtml unsafe =
     (case unsafe of
        None \<Rightarrow> []
      | Some u \<Rightarrow>
          if u = [] then []
          else replaceAll 0x27 (js ''&#039;'')
                (replaceAll 0x22 (js ''&quot;'')
                  (replaceAll 0x3E (js ''&gt;'')
                    (replaceAll 0x3C (js ''&lt;'')
                      (replaceAll 0x26 (js ''&amp;'') u)))))"

text \<open>The entity that stands for one code unit in escaped text.\<close>

definition entity :: "16 word \<Rightarrow> jsstring" where
  "entity c =
     (if c = 0x26 then js ''&amp;''
      else if c = 0x3C then js ''&lt;''
      else if c = 0x3E then js ''&gt;''
      else if c = 0x22 then js ''&quot;''
      else if c = 0x27 then js ''&#039;''
      else [c])"

text \<open>\<open>MovieCard.formatRating\<close>, on \<open>this.movie.vote_average\<close>.\<close>

definition formatRating :: "jsvalue \<Rightarrow> jsstring" where
  "formatRating vote_average =
     (case vote_average of
        Null \<Rightarrow> js ''N/A''
      | Undefined \<Rightarrow> js ''N/A''
      | Number NaN \<Rightarrow> js ''N/A''
      | Number (Finite x) \<Rightarrow> toFixed1 x)"

section \<open>Movies and cards\<close>

text \<open>
  The fields of an item that the modelled code reads. Poster, release date and genre
  ids only fill further slots of the card template and are left out.
\<close>

record movie =
  movie_id :: nat
  title :: "jsstring option"
  overview :: "jsstring option"
  vote_average :: jsvalue

text \<open>
  \<open>createMovieCard\<close> of \<open>SearchPage\<close> and \<open>NowPlayingPage\<close> (the same body): the card
  with its interpolated slots. The rating slot is
  \<open>movie.vote_average ? movie.vote_average.toFixed(1) : "N/A"\<close>, and \<open>0\<close>, \<open>NaN\<close>,
  \<open>null\<close> and \<open>undefined\<close> are the falsy scores.
\<close>

record card =
  card_movie_id :: nat
  card_title :: "jsstring option"
  card_rating :: jsstring
  card_overview :: jsstring

definition createMovieCard :: "movie \<Rightarrow> card" where
  "createMovieCard m =
     \<lparr> card_movie_id = movie_id m,
       card_title = title m,
       card_rating =
         (case vote_average m of
            Number (Finite x) \<Rightarrow> if x = 0 then js ''N/A'' else toFixed1 x
          | _ \<Rightarrow> js ''N/A''),
       card_overview = truncateText (overview m) 120 \<rparr>"

text \<open>
  \<open>MovieCard.generateHTML\<close>: the slots of the template that interpolate the title,
  the rating and the overview.
\<close>

record MovieCardOptions =
  showRating :: bool
  showOverview :: bool
  overviewLength :: nat

record MovieCardHTML =
  img_alt :: jsstring
  rating_div :: "jsstring option"
  title_h3 :: jsstring
  overview_p :: "jsstring option"

definition generateHTML :: "movie \<Rightarrow> MovieCardOptions \<Rightarrow> MovieCardHTML" where
  "generateHTML m opts =
     (let rating = formatRating (vote_average m);
          ov = truncateOverview (overview m) (overviewLength opts)
      in \<lparr> img_alt = escapeHtml (title m),
           rating_div = (if showRating opts then Some rating else None),
           title_h3 = escapeHtml (title m),
           overview_p = (if showOverview opts then Some (escapeHtml (Some ov)) else None) \<rparr>)"

section \<open>The remote API and the results grid\<close>

text \<open>
  The two paged calls of \<open>window.TMDbAPI\<close>: \<open>getNowPlayingMovies(page)\<close> and
  \<open>searchMovies(query, page)\<close>. A call returns a promise; the caller runs on when it
  settles, with the parsed page or with a rejection.
\<close>

datatype request = NowPlayingMovies nat | SearchMovies jsstring nat

record pageData =
  results :: "movie list"
  page :: nat
  total_pages :: nat

datatype outcome = Resolved pageData | Rejected

text \<open>What a controller appends to its results grid.\<close>

datatype node = CardNode card | NoResultsNode | ErrorNode jsstring

text \<open>How a block of statements ends: normally, or by a thrown exception.\<close>

datatype completion = Normal | Throw

section \<open>Feed controllers\<close>

text \<open>
  The fields that \<open>NowPlayingPage\<close> and \<open>SearchPage\<close> share. \<open>grid\<close> holds the
  children of the results grid (\<open>movies-grid\<close>, \<open>search-results-grid\<close>), \<open>None\<close> while
  the document has no element of that id, so that \<open>getElementById\<close> gives \<open>null\<close>.
  \<open>inFlight\<close> lists the remote calls that have not settled yet and \<open>issued\<close> every
  remote call made so far; the code keeps neither, both record what the event loop
  and the network hold.
\<close>

record Page =
  currentPage :: nat
  isLoading :: bool
  hasMorePages :: bool
  grid :: "node list option"
  inFlight :: "request list"
  issued :: "request list"

record NowPlayingPage = Page +
  movies :: "movie list"

record SearchPage = Page +
  searchQuery :: jsstring
  searchResults :: "movie list"
  observing :: bool

text \<open>
  \<open>showError\<close> (the same in both controllers) appends the message to the grid;
  \<open>grid.appendChild\<close> throws a \<open>TypeError\<close> when the grid is \<open>null\<close>.
\<close>

definition showError :: "jsstring \<Rightarrow> 'a Page_scheme \<Rightarrow> completion \<times> 'a Page_scheme" where
  "showError message s =
     (case grid s of
        None \<Rightarrow> (Throw, s)
      | Some g \<Rightarrow> (Normal, s\<lparr>grid := Some (g @ [ErrorNode message])\<rparr>))"

definition showNoResults :: "'a Page_scheme \<Rightarrow> completion \<times> 'a Page_scheme" where
  "showNoResults s =
     (case grid s of
        None \<Rightarrow> (Throw, s)
      | Some g \<Rightarrow> (Normal, s\<lparr>grid := Some (g @ [NoResultsNode])\<rparr>))"

text \<open>
  \<open>renderMovies\<close> and \<open>renderSearchResults\<close>: one card per movie, appended in order.
  With no grid the first \<open>appendChild\<close> throws.
\<close>

definition renderMovies :: "movie list \<Rightarrow> 'a Page_scheme \<Rightarrow> completion \<times> 'a Page_scheme" where
  "renderMovies ms s =
     (case grid s of
        None \<Rightarrow> (if ms = [] then (Normal, s) else (Throw, s))
      | Some g \<Rightarrow> (Normal, s\<lparr>grid := Some (g @ map (\<lambda>m. CardNode (createMovieCard m)) ms)\<rparr>))"

definition renderSearchResults :: "movie list \<Rightarrow> 'a Page_scheme \<Rightarrow> completion \<times> 'a Page_scheme" where
  "renderSearchResults ms s =
     (case grid s of
        None \<Rightarrow> (if ms = [] then (Normal, s) else (Throw, s))
      | Some g \<Rightarrow> (Normal, s\<lparr>grid := Some (g @ map (\<lambda>m. CardNode (createMovieCard m)) ms)\<rparr>))"

definition removeAt :: "nat \<Rightarrow> 'a list \<Rightarrow> 'a list" where
  "removeAt i xs = take i xs @ drop (Suc i) xs"

subsection \<open>The browse controller\<close>

definition NowPlayingPage_new :: NowPlayingPage where
  "NowPlayingPage_new =
     \<lparr> currentPage = 1, isLoading = False, hasMorePages = True, grid = None,
       inFlight = [], issued = [], movies = [] \<rparr>"

text \<open>
  \<open>loadMovies\<close> up to its \<open>await\<close>: the guard, the flag, the remote call.
  (\<open>showLoading\<close> and \<open>hideLoading\<close> only switch the display of the loading
  indicator and touch no field.)
\<close>

definition loadMovies :: "NowPlayingPage \<Rightarrow> NowPlayingPage" where
  "loadMovies s =
     (if isLoading s \<or> \<not> hasMorePages s then s
      else s\<lparr> isLoading := True,
              inFlight := inFlight s @ [NowPlayingMovies (currentPage s)],
              issued := issued s @ [NowPlayingMovies (currentPage s)] \<rparr>)"

text \<open>The body of the \<open>try\<close> of \<open>loadMovies\<close> once the call has resolved with \<open>data\<close>.\<close>

definition loadMovies_try :: "pageData \<Rightarrow> NowPlayingPage \<Rightarrow> completion \<times> NowPlayingPage" where
  "loadMovies_try data s =
     (if results data \<noteq> [] then
        (case renderMovies (results data) (s\<lparr>movies := movies s @ results data\<rparr>) of
           (Throw, s1) \<Rightarrow> (Throw, s1)
         | (Normal, s1) \<Rightarrow>
             (Normal, s1\<lparr> currentPage := currentPage s1 + 1,
                           hasMorePages := (currentPage s1 + 1 \<le> total_pages data) \<rparr>))
      else (Normal, s\<lparr>hasMorePages := False\<rparr>))"

text \<open>
  \<open>loadMovies\<close> from the \<open>await\<close> on: \<open>try\<close>, \<open>catch\<close>, \<open>finally\<close>. An exception thrown
  inside the \<open>catch\<close> leaves the function after the \<open>finally\<close> has run.
\<close>

definition loadMovies_resume :: "outcome \<Rightarrow> NowPlayingPage \<Rightarrow> completion \<times> NowPlayingPage" where
  "loadMovies_resume out s =
     (case (case out of Rejected \<Rightarrow> (Throw, s) | Resolved data \<Rightarrow> loadMovies_try data s) of
        (Normal, s1) \<Rightarrow> (Normal, s1\<lparr>isLoading := False\<rparr>)
      | (Throw, s1) \<Rightarrow>
          (case showError (js ''Failed to load movies. Please try again.'') s1 of
             (c, s2) \<Rightarrow> (c, s2\<lparr>isLoading := False\<rparr>)))"

text \<open>
  \<open>NowPlayingPage.init\<close> after the genres have loaded: \<open>createContainer\<close>,
  \<open>setupInfiniteScroll\<close>, \<open>loadMovies\<close>.
\<close>

definition NowPlayingPage_init :: "NowPlayingPage \<Rightarrow> NowPlayingPage" where
  "NowPlayingPage_init s = loadMovies (s\<lparr>grid := Some []\<rparr>)"

text \<open>The part of \<open>MovieRamaApp.showNowPlaying\<close> that acts on the browse controller.\<close>

definition showNowPlaying :: "NowPlayingPage \<Rightarrow> NowPlayingPage" where
  "showNowPlaying s = (if currentPage s = 1 \<and> movies s = [] then loadMovies s else s)"

text \<open>The callback of the observer set up by \<open>setupInfiniteScroll\<close>, on an intersecting entry.\<close>

definition infiniteScroll :: "NowPlayingPage \<Rightarrow> NowPlayingPage" where
  "infiniteScroll s = (if \<not> isLoading s \<and> hasMorePages s then loadMovies s else s)"

text \<open>
  The events that reach the browse controller. \<open>BrowseSettle i out\<close> settles the
  \<open>i\<close>-th pending call with \<open>out\<close>; an exception that leaves \<open>loadMovies\<close> rejects its
  promise and changes nothing further.
\<close>

datatype browse_event =
  BrowseInit | ShowNowPlaying | BrowseIntersect | BrowseSettle nat outcome

fun browse_step :: "browse_event \<Rightarrow> NowPlayingPage \<Rightarrow> NowPlayingPage" where
  "browse_step BrowseInit s = NowPlayingPage_init s"
| "browse_step ShowNowPlaying s = showNowPlaying s"
| "browse_step BrowseIntersect s = infiniteScroll s"
| "browse_step (BrowseSettle i out) s =
     (if i < length (inFlight s)
      then snd (loadMovies_resume out (s\<lparr>inFlight := removeAt i (inFlight s)\<rparr>))
      else s)"

primrec browse_run :: "browse_event list \<Rightarrow> NowPlayingPage \<Rightarrow> NowPlayingPage" where
  "browse_run [] s = s"
| "browse_run (e # es) s = browse_run es (browse_step e s)"

subsection \<open>The search controller\<close>

definition SearchPage_new :: SearchPage where
  "SearchPage_new =
     \<lparr> currentPage = 1, isLoading = False, hasMorePages = True, grid = None,
       inFlight = [], issued = [], searchQuery = [], searchResults = [],
       observing = False \<rparr>"

text \<open>
  \<open>loadSearchResults\<close> up to its \<open>await\<close>. As in the browse controller,
  \<open>showLoading\<close> and \<open>hideLoading\<close> only switch the display of the loading indicator.
\<close>

definition loadSearchResults :: "SearchPage \<Rightarrow> SearchPage" where
  "loadSearchResults s =
     (if isLoading s \<or> \<not> hasMorePages s \<or> searchQuery s = [] then s
      else s\<lparr> isLoading := True,
              inFlight := inFlight s @ [SearchMovies (searchQuery s) (currentPage s)],
              issued := issued s @ [SearchMovies (searchQuery s) (currentPage s)] \<rparr>)"

definition loadSearchResults_try :: "pageData \<Rightarrow> SearchPage \<Rightarrow> completion \<times> SearchPage" where
  "loadSearchResults_try data s =
     (if results data \<noteq> [] then
        (case renderSearchResults (results data)
                (s\<lparr>searchResults := searchResults s @ results data\<rparr>) of
           (Throw, s1) \<Rightarrow> (Throw, s1)
         | (Normal, s1) \<Rightarrow>
             (Normal, s1\<lparr> currentPage := currentPage s1 + 1,
                           hasMorePages := (currentPage s1 + 1 \<le> total_pages data) \<rparr>))
      else (if currentPage s = 1 then showNoResults (s\<lparr>hasMorePages := False\<rparr>)
            else (Normal, s\<lparr>hasMorePages := False\<rparr>)))"

definition loadSearchResults_resume :: "outcome \<Rightarrow> SearchPage \<Rightarrow> completion \<times> SearchPage" where
  "loadSearchResults_resume out s =
     (case (case out of Rejected \<Rightarrow> (Throw, s) | Resolved data \<Rightarrow> loadSearchResults_try data s) of
        (Normal, s1) \<Rightarrow> (Normal, s1\<lparr>isLoading := False\<rparr>)
      | (Throw, s1) \<Rightarrow>
          (case showError (js ''Failed to search movies. Please try again.'') s1 of
             (c, s2) \<Rightarrow> (c, s2\<lparr>isLoading := False\<rparr>)))"

text \<open>
  \<open>createSearchContainer\<close> replaces the search container by a fresh one with an empty
  grid, and \<open>setupSearchInfiniteScroll\<close> observes its loading element.
\<close>

definition createSearchContainer :: "SearchPage \<Rightarrow> SearchPage" where
  "createSearchContainer s = s\<lparr>grid := Some [], observing := True\<rparr>"

text \<open>
  \<open>performSearch\<close> up to the \<open>await\<close> inside \<open>loadSearchResults\<close>; nothing follows
  that \<open>await\<close>. \<open>toggleSearchMode\<close> switches a class of the page header and is left
  out, here and in \<open>clearSearch\<close>; the header and the search input are taken to be in
  the document.
\<close>

definition performSearch :: "jsstring \<Rightarrow> SearchPage \<Rightarrow> SearchPage" where
  "performSearch query s =
     (if query = searchQuery s then s
      else loadSearchResults
             (createSearchContainer
                (s\<lparr> searchQuery := query, currentPage := 1, hasMorePages := True,
                     searchResults := [] \<rparr>)))"

definition clearSearch :: "SearchPage \<Rightarrow> SearchPage" where
  "clearSearch s = s\<lparr>searchQuery := [], grid := None, observing := False\<rparr>"

text \<open>The callback of the observer of \<open>setupSearchInfiniteScroll\<close>, on an intersecting entry.\<close>

definition searchInfiniteScroll :: "SearchPage \<Rightarrow> SearchPage" where
  "searchInfiniteScroll s =
     (if \<not> isLoading s \<and> hasMorePages s \<and> searchQuery s \<noteq> [] then loadSearchResults s else s)"

text \<open>
  The events that reach the search controller: a query committed by the debounced
  input handler (or by the application), the search cleared, the sentinel
  intersecting while its observer is connected, and the \<open>i\<close>-th pending call settling.
\<close>

datatype search_event =
  PerformSearch jsstring | ClearSearch | SearchIntersect | SearchSettle nat outcome

fun search_step :: "search_event \<Rightarrow> SearchPage \<Rightarrow> SearchPage" where
  "search_step (PerformSearch q) s = performSearch q s"
| "search_step ClearSearch s = clearSearch s"
| "search_step SearchIntersect s = (if observing s then searchInfiniteScroll s else s)"
| "search_step (SearchSettle i out) s =
     (if i < length (inFlight s)
      then snd (loadSearchResults_resume out (s\<lparr>inFlight := removeAt i (inFlight s)\<rparr>))
      else s)"

primrec search_run :: "search_event list \<Rightarrow> SearchPage \<Rightarrow> SearchPage" where
  "search_run [] s = s"
| "search_run (e # es) s = search_run es (search_step e s)"

section \<open>The modal and the detail view\<close>

text \<open>
  What the body of the modal can hold: nothing yet, the loading placeholder of
  \<open>openMovieDetails\<close>, its error message, or the markup that
  \<open>createMovieDetailsContent\<close> builds.
\<close>

record video =
  video_type :: jsstring
  video_site :: jsstring
  video_key :: jsstring

record review =
  review_author :: jsstring
  review_content :: "jsstring option"

text \<open>The four responses that \<open>Promise.all\<close> joins.\<close>

record detailBundle =
  details :: movie
  videos :: "video list"
  reviews :: "review list"
  similar :: "movie list"

record detailsContent =
  details_title :: "jsstring option"
  details_rating :: jsstring
  trailer :: "jsstring option"
  reviewsHtml :: "(jsstring \<times> jsstring) list"
  similarHtml :: "(nat \<times> jsstring option) list"

text \<open>
  \<open>createMovieDetailsContent\<close>: the first YouTube trailer, the first two reviews with
  the body cut at 200, the first six similar movies.
\<close>

definition createMovieDetailsContent :: "detailBundle \<Rightarrow> detailsContent" where
  "createMovieDetailsContent b =
     \<lparr> details_title = title (details b),
       details_rating =
         (case vote_average (details b) of
            Number (Finite x) \<Rightarrow> if x = 0 then js ''Not rated'' else toFixed1 x @ js ''/10''
          | _ \<Rightarrow> js ''Not rated''),
       trailer =
         map_option video_key
           (find (\<lambda>v. video_type v = js ''Trailer'' \<and> video_site v = js ''YouTube'') (videos b)),
       reviewsHtml =
         map (\<lambda>r. (review_author r, truncateText (review_content r) 200)) (take 2 (reviews b)),
       similarHtml = map (\<lambda>m. (movie_id m, title m)) (take 6 (similar b)) \<rparr>"

datatype modalBody = EmptyBody | LoadingDetails | DetailsError | MovieDetails detailsContent

text \<open>
  The \<open>Modal\<close>: its flag, the content of \<open>.modal-body\<close>, whether the overlay is
  displayed, and the number of close timers (300 ms) that have not fired yet.
\<close>

record Modal =
  isOpen :: bool
  body :: modalBody
  displayed :: bool
  closeTimers :: nat

definition Modal_new :: Modal where
  "Modal_new = \<lparr> isOpen = False, body = EmptyBody, displayed = False, closeTimers = 0 \<rparr>"

definition Modal_open :: "modalBody \<Rightarrow> Modal \<Rightarrow> Modal" where
  "Modal_open content m =
     (if isOpen m then m
      else m\<lparr>body := content, displayed := True, isOpen := True\<rparr>)"

definition Modal_close :: "Modal \<Rightarrow> Modal" where
  "Modal_close m = (if \<not> isOpen m then m else m\<lparr>closeTimers := closeTimers m + 1\<rparr>)"

text \<open>The timer that \<open>close\<close> has set fires.\<close>

definition Modal_closeTimeout :: "Modal \<Rightarrow> Modal" where
  "Modal_closeTimeout m =
     (if closeTimers m = 0 then m
      else m\<lparr>displayed := False, isOpen := False, closeTimers := closeTimers m - 1\<rparr>)"

definition setContent :: "modalBody \<Rightarrow> Modal \<Rightarrow> Modal" where
  "setContent content m = m\<lparr>body := content\<rparr>"

text \<open>
  The global modal together with the detail aggregations that have not settled: the
  id of the movie of each pending \<open>Promise.all\<close>, in the order of the clicks.
\<close>

record DetailView =
  modal :: Modal
  pendingDetails :: "nat list"

definition DetailView_new :: DetailView where
  "DetailView_new = \<lparr> modal = Modal_new, pendingDetails = [] \<rparr>"

datatype detailOutcome = AllResolved detailBundle | SomeRejected

text \<open>\<open>openMovieDetails\<close> up to its \<open>await\<close>, and from there on.\<close>

definition openMovieDetails :: "movie \<Rightarrow> DetailView \<Rightarrow> DetailView" where
  "openMovieDetails m v =
     v\<lparr> modal := Modal_open LoadingDetails (modal v),
        pendingDetails := pendingDetails v @ [movie_id m] \<rparr>"

definition openMovieDetails_resume :: "detailOutcome \<Rightarrow> DetailView \<Rightarrow> DetailView" where
  "openMovieDetails_resume out v =
     (case out of
        AllResolved b \<Rightarrow> v\<lparr>modal := setContent (MovieDetails (createMovieDetailsContent b)) (modal v)\<rparr>
      | SomeRejected \<Rightarrow> v\<lparr>modal := setContent DetailsError (modal v)\<rparr>)"

text \<open>
  The events of the detail view: a click on a card, a request to close the modal
  (button, overlay or Escape), a close timer firing, and the \<open>i\<close>-th pending
  aggregation settling, with all four responses or with the first rejection.
\<close>

datatype detail_event =
  CardClick movie | CloseClick | CloseTimeout | DetailsSettle nat detailOutcome

fun detail_step :: "detail_event \<Rightarrow> DetailView \<Rightarrow> DetailView" where
  "detail_step (CardClick m) v = openMovieDetails m v"
| "detail_step CloseClick v = v\<lparr>modal := Modal_close (modal v)\<rparr>"
| "detail_step CloseTimeout v = v\<lparr>modal := Modal_closeTimeout (modal v)\<rparr>"
| "detail_step (DetailsSettle i out) v =
     (if i < length (pendingDetails v)
      then openMovieDetails_resume out (v\<lparr>pendingDetails := removeAt i (pendingDetails v)\<rparr>)
      else v)"

primrec detail_run :: "detail_event list \<Rightarrow> DetailView \<Rightarrow> DetailView" where
  "detail_run [] v = v"
| "detail_run (e # es) v = detail_run es (detail_step e v)"

section \<open>Properties used to state the claims\<close>

text \<open>
  The flag and the pending calls agree: while \<open>isLoading\<close> is set exactly one call is
  pending, and none otherwise.
\<close>

definition singleFlight :: "'a Page_scheme \<Rightarrow> bool" where
  "singleFlight s = (if isLoading s then length (inFlight s) = 1 else inFlight s = [])"

text \<open>A pending call of the browse controller asks for the page of the cursor.\<close>

definition pendingAtCursor :: "NowPlayingPage \<Rightarrow> bool" where
  "pendingAtCursor s = (inFlight s = [] \<or> inFlight s = [NowPlayingMovies (currentPage s)])"

definition startsWith :: "jsstring \<Rightarrow> jsstring \<Rightarrow> bool" where
  "startsWith p s = (take (length p) s = p)"

text \<open>
  Escaped text: every ampersand opens one of the five entities, and no angle bracket
  or quote occurs.
\<close>

fun escaped :: "jsstring \<Rightarrow> bool" where
  "escaped [] = True"
| "escaped (c # cs) =
     ((if c = 0x26
       then startsWith (js ''amp;'') cs \<or> startsWith (js ''lt;'') cs
            \<or> startsWith (js ''gt;'') cs \<or> startsWith (js ''quot;'') cs
            \<or> startsWith (js ''#039;'') cs
       else c \<noteq> 0x3C \<and> c \<noteq> 0x3E \<and> c \<noteq> 0x22 \<and> c \<noteq> 0x27)
      \<and> escaped cs)"

section \<open>Example data\<close>

text \<open>Two movies of the test suite, a response page, and the bundle of a detail view.\<close>

definition fightClub :: movie where
  "fightClub =
     \<lparr> movie_id = 550, title = Some (js ''Fight Club''), overview = None,
       vote_average = Number (Finite (84 / 10)) \<rparr>"

definition minimalMovie :: movie where
  "minimalMovie =
     \<lparr> movie_id = 552, title = Some (js ''Minimal Movie''), overview = None,
       vote_average = Null \<rparr>"

definition pageOf :: "movie list \<Rightarrow> nat \<Rightarrow> nat \<Rightarrow> pageData" where
  "pageOf ms p t = \<lparr> results = ms, page = p, total_pages = t \<rparr>"

definition bundleOf :: "movie \<Rightarrow> detailBundle" where
  "bundleOf m = \<lparr> details = m, videos = [], reviews = [], similar = [] \<rparr>"


text \<open>Text with each of the five special characters.\<close>

definition markupText :: jsstring where
  "markupText = [0x3C, 0x26, 0x22, 0x27, 0x3E, 0x41]"

definition defaultOptions :: MovieCardOptions where
  "defaultOptions = \<lparr> showRating = True, showOverview = True, overviewLength = 120 \<rparr>"

text \<open>The search controller after the first page of \<open>dune\<close> has arrived.\<close>

definition idleSearch :: SearchPage where
  "idleSearch =
     search_run [PerformSearch (js ''dune''), SearchSettle 0 (Resolved (pageOf [fightClub] 1 2))]
       SearchPage_new"

text \<open>The browse controller after its first page has arrived.\<close>

definition idleBrowse :: NowPlayingPage where
  "idleBrowse =
     browse_run [BrowseInit, BrowseSettle 0 (Resolved (pageOf [fightClub] 1 2))]
       NowPlayingPage_new"

text \<open>Both controllers waiting for page 3 of 3.\<close>

definition searchAwaitingPage3 :: SearchPage where
  "searchAwaitingPage3 =
     search_run [PerformSearch (js ''dune''), SearchSettle 0 (Resolved (pageOf [fightClub] 1 3)),
                 SearchIntersect, SearchSettle 0 (Resolved (pageOf [fightClub] 2 3)),
                 SearchIntersect]
       SearchPage_new"

definition browseAwaitingPage3 :: NowPlayingPage where
  "browseAwaitingPage3 =
     browse_run [BrowseInit, BrowseSettle 0 (Resolved (pageOf [fightClub] 1 3)),
                 BrowseIntersect, BrowseSettle 0 (Resolved (pageOf [fightClub] 2 3)),
                 BrowseIntersect]
       NowPlayingPage_new"

text \<open>
  A second query committed while the first page of the first query is pending, then
  that page arrives.
\<close>

definition staleSearch :: SearchPage where
  "staleSearch =
     search_run [PerformSearch (js ''dune''), PerformSearch (js ''alien''),
                 SearchSettle 0 (Resolved (pageOf [fightClub] 1 2))]
       SearchPage_new"



text \<open>The detail view of \<open>fightClub\<close> opened; and opened, then closed.\<close>

definition detailsLoading :: DetailView where
  "detailsLoading = detail_run [CardClick fightClub] DetailView_new"

definition detailsClosed :: DetailView where
  "detailsClosed = detail_run [CardClick fightClub, CloseClick, CloseTimeout] DetailView_new"

text \<open>
  \<open>fightClub\<close> opened and closed, \<open>minimalMovie\<close> opened, and the details of
  \<open>minimalMovie\<close> have arrived first.
\<close>

definition detailsOfSecond :: DetailView where
  "detailsOfSecond =
     detail_run [CardClick fightClub, CloseClick, CloseTimeout, CardClick minimalMovie,
                 DetailsSettle 1 (AllResolved (bundleOf minimalMovie))]
       DetailView_new"

section \<open>Helper lemmas\<close>

lemmas sink_defs = showError_def showNoResults_def renderMovies_def renderSearchResults_def

lemmas search_defs = performSearch_def loadSearchResults_def createSearchContainer_def
  searchInfiniteScroll_def clearSearch_def loadSearchResults_resume_def
  loadSearchResults_try_def SearchPage_new_def removeAt_def

lemmas browse_defs = NowPlayingPage_init_def showNowPlaying_def infiniteScroll_def
  loadMovies_def loadMovies_resume_def loadMovies_try_def NowPlayingPage_new_def removeAt_def

lemmas detail_defs = openMovieDetails_def openMovieDetails_resume_def Modal_open_def
  Modal_close_def Modal_closeTimeout_def setContent_def DetailView_new_def Modal_new_def
  removeAt_def

subsection \<open>What the continuation of a page fetch leaves alone\<close>

lemma loadSearchResults_resume_isLoading:
  "isLoading (snd (loadSearchResults_resume out s)) = False"
  by (auto simp: loadSearchResults_resume_def loadSearchResults_try_def sink_defs
           split: outcome.splits option.splits prod.splits completion.splits if_splits)

lemma loadSearchResults_resume_inFlight:
  "inFlight (snd (loadSearchResults_resume out s)) = inFlight s"
  by (auto simp: loadSearchResults_resume_def loadSearchResults_try_def sink_defs
           split: outcome.splits option.splits prod.splits completion.splits if_splits)

lemma loadSearchResults_resume_query:
  "searchQuery (snd (loadSearchResults_resume out s)) = searchQuery s"
  by (auto simp: loadSearchResults_resume_def loadSearchResults_try_def sink_defs
           split: outcome.splits option.splits prod.splits completion.splits if_splits)

lemma loadMovies_resume_isLoading:
  "isLoading (snd (loadMovies_resume out s)) = False"
  by (auto simp: loadMovies_resume_def loadMovies_try_def sink_defs
           split: outcome.splits option.splits prod.splits completion.splits if_splits)

lemma loadMovies_resume_inFlight:
  "inFlight (snd (loadMovies_resume out s)) = inFlight s"
  by (auto simp: loadMovies_resume_def loadMovies_try_def sink_defs
           split: outcome.splits option.splits prod.splits completion.splits if_splits)

lemma search_rejected:
  "snd (loadSearchResults_resume Rejected s) =
     (case grid s of
        None \<Rightarrow> s\<lparr>isLoading := False\<rparr>
      | Some g \<Rightarrow>
          s\<lparr> grid := Some (g @ [ErrorNode (js ''Failed to search movies. Please try again.'')]),
             isLoading := False \<rparr>)"
  by (simp add: loadSearchResults_resume_def showError_def split: option.splits)

lemma browse_rejected:
  "snd (loadMovies_resume Rejected s) =
     (case grid s of
        None \<Rightarrow> s\<lparr>isLoading := False\<rparr>
      | Some g \<Rightarrow>
          s\<lparr> grid := Some (g @ [ErrorNode (js ''Failed to load movies. Please try again.'')]),
             isLoading := False \<rparr>)"
  by (simp add: loadMovies_resume_def showError_def split: option.splits)

subsection \<open>The flag and the pending calls\<close>

lemma removeAt_single: "length xs = 1 \<Longrightarrow> i < length xs \<Longrightarrow> removeAt i xs = []"
  by (cases xs) (auto simp: removeAt_def)

lemma search_step_singleFlight: "singleFlight s \<Longrightarrow> singleFlight (search_step e s)"
proof (cases e)
  case (PerformSearch q)
  assume "singleFlight s"
  then show ?thesis
    using PerformSearch
    by (auto simp: singleFlight_def performSearch_def loadSearchResults_def
                   createSearchContainer_def split: if_splits)
next
  case ClearSearch
  assume "singleFlight s"
  then show ?thesis
    using ClearSearch by (auto simp: singleFlight_def clearSearch_def split: if_splits)
next
  case SearchIntersect
  assume "singleFlight s"
  then show ?thesis
    using SearchIntersect
    by (auto simp: singleFlight_def searchInfiniteScroll_def loadSearchResults_def
             split: if_splits)
next
  case (SearchSettle i out)
  assume inv: "singleFlight s"
  show ?thesis
  proof (cases "i < length (inFlight s)")
    case True
    with inv have "length (inFlight s) = 1"
      by (auto simp: singleFlight_def split: if_splits)
    with True have "removeAt i (inFlight s) = []"
      by (simp add: removeAt_single)
    then show ?thesis
      using SearchSettle True
      by (simp add: singleFlight_def loadSearchResults_resume_isLoading
                    loadSearchResults_resume_inFlight)
  next
    case False
    then show ?thesis using SearchSettle inv by simp
  qed
qed

lemma search_run_singleFlight: "singleFlight s \<Longrightarrow> singleFlight (search_run es s)"
  by (induction es arbitrary: s) (simp_all add: search_step_singleFlight)

lemma browse_step_singleFlight: "singleFlight s \<Longrightarrow> singleFlight (browse_step e s)"
proof (cases e)
  case (BrowseSettle i out)
  assume inv: "singleFlight s"
  show ?thesis
  proof (cases "i < length (inFlight s)")
    case True
    with inv have "length (inFlight s) = 1"
      by (auto simp: singleFlight_def split: if_splits)
    with True have "removeAt i (inFlight s) = []"
      by (simp add: removeAt_single)
    then show ?thesis
      using BrowseSettle True
      by (simp add: singleFlight_def loadMovies_resume_isLoading loadMovies_resume_inFlight)
  next
    case False
    then show ?thesis using BrowseSettle inv by simp
  qed
qed (auto simp: singleFlight_def NowPlayingPage_init_def showNowPlaying_def
                infiniteScroll_def loadMovies_def split: if_splits)

lemma browse_run_singleFlight: "singleFlight s \<Longrightarrow> singleFlight (browse_run es s)"
  by (induction es arbitrary: s) (simp_all add: browse_step_singleFlight)

lemma browse_step_pendingAtCursor:
  assumes "singleFlight s" "pendingAtCursor s"
  shows "pendingAtCursor (browse_step e s)"
proof (cases e)
  case (BrowseSettle i out)
  show ?thesis
  proof (cases "i < length (inFlight s)")
    case True
    with assms have "length (inFlight s) = 1"
      by (auto simp: singleFlight_def split: if_splits)
    with True have "removeAt i (inFlight s) = []"
      by (simp add: removeAt_single)
    then show ?thesis
      using BrowseSettle True by (simp add: pendingAtCursor_def loadMovies_resume_inFlight)
  next
    case False
    then show ?thesis using BrowseSettle assms by simp
  qed
qed (insert assms, auto simp: singleFlight_def pendingAtCursor_def NowPlayingPage_init_def
       showNowPlaying_def infiniteScroll_def loadMovies_def split: if_splits)

lemma browse_run_pendingAtCursor:
  "singleFlight s \<Longrightarrow> pendingAtCursor s \<Longrightarrow> pendingAtCursor (browse_run es s)"
  by (induction es arbitrary: s)
     (simp_all add: browse_step_singleFlight browse_step_pendingAtCursor)

text \<open>
  Whatever happened before, a call that the browse controller has pending is the
  call for the page of its cursor.
\<close>

lemma browse_pending_is_cursor:
  "inFlight (browse_run es NowPlayingPage_new) = []
   \<or> inFlight (browse_run es NowPlayingPage_new)
       = [NowPlayingMovies (currentPage (browse_run es NowPlayingPage_new))]"
proof -
  have "singleFlight NowPlayingPage_new" "pendingAtCursor NowPlayingPage_new"
    by (simp_all add: singleFlight_def pendingAtCursor_def NowPlayingPage_new_def)
  then have "pendingAtCursor (browse_run es NowPlayingPage_new)"
    by (rule browse_run_pendingAtCursor)
  then show ?thesis by (simp add: pendingAtCursor_def)
qed

subsection \<open>Retrying, and running out of pages\<close>

lemma search_retry:
  assumes "\<not> isLoading s" "hasMorePages s" "searchQuery s \<noteq> []" "observing s"
    and "inFlight s = []"
  shows "inFlight (search_run [SearchIntersect, SearchSettle 0 Rejected, SearchIntersect] s)
           = [SearchMovies (searchQuery s) (currentPage s)]"
  using assms
  by (simp add: searchInfiniteScroll_def loadSearchResults_def removeAt_def search_rejected
           split: option.splits)

lemma browse_retry:
  assumes "\<not> isLoading s" "hasMorePages s" "inFlight s = []"
  shows "inFlight (browse_run [BrowseIntersect, BrowseSettle 0 Rejected, BrowseIntersect] s)
           = [NowPlayingMovies (currentPage s)]"
  using assms
  by (simp add: infiniteScroll_def loadMovies_def removeAt_def browse_rejected
           split: option.splits)

lemma search_call_rejected:
  "searchResults (search_step (SearchSettle 0 Rejected) (loadSearchResults s)) = searchResults s
   \<and> currentPage (search_step (SearchSettle 0 Rejected) (loadSearchResults s)) = currentPage s"
  by (simp add: loadSearchResults_def search_rejected split: option.splits)

lemma browse_call_rejected:
  "movies (browse_step (BrowseSettle 0 Rejected) (loadMovies s)) = movies s
   \<and> currentPage (browse_step (BrowseSettle 0 Rejected) (loadMovies s)) = currentPage s"
  by (simp add: loadMovies_def browse_rejected split: option.splits)

lemma search_last_page:
  assumes "grid s = Some g" "currentPage s = total_pages data"
  shows "hasMorePages (snd (loadSearchResults_resume (Resolved data) s)) = False"
  using assms
  by (auto simp: loadSearchResults_resume_def loadSearchResults_try_def sink_defs
           split: option.splits prod.splits completion.splits if_splits)

lemma browse_last_page:
  assumes "grid s = Some g" "currentPage s = total_pages data"
  shows "hasMorePages (snd (loadMovies_resume (Resolved data) s)) = False"
  using assms
  by (auto simp: loadMovies_resume_def loadMovies_try_def sink_defs
           split: option.splits prod.splits completion.splits if_splits)

lemma search_exhausted_idle:
  "\<not> hasMorePages s \<Longrightarrow> search_run (replicate n SearchIntersect) s = s"
  by (induction n) (simp_all add: searchInfiniteScroll_def)

lemma browse_exhausted_idle:
  "\<not> hasMorePages s \<Longrightarrow> browse_run (replicate n BrowseIntersect) s = s"
  by (induction n) (simp_all add: infiniteScroll_def)

subsection \<open>Committing a query\<close>

lemma performSearch_query: "searchQuery (performSearch q s) = q"
  by (simp add: performSearch_def loadSearchResults_def createSearchContainer_def)

lemma search_settle_query: "searchQuery (search_step (SearchSettle i out) s) = searchQuery s"
  by (simp add: loadSearchResults_resume_query)

lemma performSearch_same: "q = searchQuery s \<Longrightarrow> performSearch q s = s"
  by (simp add: performSearch_def)

text \<open>
  A new query resets the list, the cursor and the more-pages flag; with no call
  pending, page 1 of the new query is the call it makes.
\<close>

lemma performSearch_full_reset:
  assumes "q \<noteq> searchQuery s"
  shows "searchResults (performSearch q s) = [] \<and> currentPage (performSearch q s) = 1
       \<and> hasMorePages (performSearch q s) \<and> grid (performSearch q s) = Some []"
  using assms by (simp add: performSearch_def loadSearchResults_def createSearchContainer_def)

lemma performSearch_fetches_first_page:
  assumes "q \<noteq> searchQuery s" "q \<noteq> []" "\<not> isLoading s"
  shows "issued (performSearch q s) = issued s @ [SearchMovies q 1]"
  using assms by (simp add: performSearch_def loadSearchResults_def createSearchContainer_def)

subsection \<open>Escaping and trimming\<close>

lemma replaceAll_append: "replaceAll c r (a @ b) = replaceAll c r a @ replaceAll c r b"
  by (simp add: replaceAll_def)

lemma escape_single:
  "replaceAll 0x27 (js ''&#039;'')
     (replaceAll 0x22 (js ''&quot;'')
       (replaceAll 0x3E (js ''&gt;'')
         (replaceAll 0x3C (js ''&lt;'')
           (replaceAll 0x26 (js ''&amp;'') [x])))) = entity x"
  by (simp add: replaceAll_def entity_def js_def)

lemma escape_passes:
  "replaceAll 0x27 (js ''&#039;'')
     (replaceAll 0x22 (js ''&quot;'')
       (replaceAll 0x3E (js ''&gt;'')
         (replaceAll 0x3C (js ''&lt;'')
           (replaceAll 0x26 (js ''&amp;'') u)))) = concat (map entity u)"
proof (induction u)
  case Nil
  show ?case by (simp add: replaceAll_def)
next
  case (Cons x xs)
  have "replaceAll 0x27 (js ''&#039;'')
     (replaceAll 0x22 (js ''&quot;'')
       (replaceAll 0x3E (js ''&gt;'')
         (replaceAll 0x3C (js ''&lt;'')
           (replaceAll 0x26 (js ''&amp;'') ([x] @ xs))))) = entity x @ concat (map entity xs)"
    by (simp only: replaceAll_append escape_single Cons.IH)
  then show ?case by simp
qed

lemma escapeHtml_entities: "escapeHtml (Some u) = concat (map entity u)"
  by (simp add: escapeHtml_def escape_passes)

lemma escapeHtml_cases:
  "escapeHtml t = (case t of None \<Rightarrow> [] | Some u \<Rightarrow> concat (map entity u))"
  by (cases t) (simp_all add: escapeHtml_entities, simp add: escapeHtml_def)

lemma entity_no_markup: "set (entity c) \<inter> {0x3C, 0x3E, 0x22, 0x27} = {}"
  by (simp add: entity_def js_def)

lemma entities_no_markup: "set (concat (map entity u)) \<inter> {0x3C, 0x3E, 0x22, 0x27} = {}"
  using entity_no_markup by (induction u) (auto simp: Int_Un_distrib2)

lemma escaped_entity: "escaped rest \<Longrightarrow> escaped (entity c @ rest)"
  by (simp add: entity_def js_def startsWith_def)

lemma escaped_entities: "escaped (concat (map entity u))"
  by (induction u) (simp_all add: escaped_entity)

lemma escapeHtml_escaped: "escaped (escapeHtml t)"
  by (cases t) (simp_all add: escapeHtml_cases escaped_entities)

lemma escapeHtml_no_markup: "set (escapeHtml t) \<inter> {0x3C, 0x3E, 0x22, 0x27} = {}"
  by (cases t) (simp_all add: escapeHtml_cases entities_no_markup del: set_concat)


subsection \<open>The example states\<close>

lemma idleSearch_state:
  "idleSearch =
     \<lparr> currentPage = 2, isLoading = False, hasMorePages = True,
       grid = Some [CardNode (createMovieCard fightClub)], inFlight = [],
       issued = [SearchMovies (js ''dune'') 1], searchQuery = js ''dune'',
       searchResults = [fightClub], observing = True \<rparr>"
  by (simp add: idleSearch_def search_defs sink_defs pageOf_def js_def)

lemma idleBrowse_state:
  "idleBrowse =
     \<lparr> currentPage = 2, isLoading = False, hasMorePages = True,
       grid = Some [CardNode (createMovieCard fightClub)], inFlight = [],
       issued = [NowPlayingMovies 1], movies = [fightClub] \<rparr>"
  by (simp add: idleBrowse_def browse_defs sink_defs pageOf_def)

lemma searchAwaitingPage3_state:
  "searchAwaitingPage3 =
     \<lparr> currentPage = 3, isLoading = True, hasMorePages = True,
       grid = Some [CardNode (createMovieCard fightClub), CardNode (createMovieCard fightClub)],
       inFlight = [SearchMovies (js ''dune'') 3],
       issued = [SearchMovies (js ''dune'') 1, SearchMovies (js ''dune'') 2,
                 SearchMovies (js ''dune'') 3],
       searchQuery = js ''dune'', searchResults = [fightClub, fightClub], observing = True \<rparr>"
  by (simp add: searchAwaitingPage3_def search_defs sink_defs pageOf_def js_def)

lemma browseAwaitingPage3_state:
  "browseAwaitingPage3 =
     \<lparr> currentPage = 3, isLoading = True, hasMorePages = True,
       grid = Some [CardNode (createMovieCard fightClub), CardNode (createMovieCard fightClub)],
       inFlight = [NowPlayingMovies 3],
       issued = [NowPlayingMovies 1, NowPlayingMovies 2, NowPlayingMovies 3],
       movies = [fightClub, fightClub] \<rparr>"
  by (simp add: browseAwaitingPage3_def browse_defs sink_defs pageOf_def)

lemma staleSearch_state:
  "staleSearch =
     \<lparr> currentPage = 2, isLoading = False, hasMorePages = True,
       grid = Some [CardNode (createMovieCard fightClub)], inFlight = [],
       issued = [SearchMovies (js ''dune'') 1], searchQuery = js ''alien'',
       searchResults = [fightClub], observing = True \<rparr>"
  by (simp add: staleSearch_def search_defs sink_defs pageOf_def js_def)

lemma detailsLoading_state:
  "detailsLoading =
     \<lparr> modal = \<lparr> isOpen = True, body = LoadingDetails, displayed = True, closeTimers = 0 \<rparr>,
       pendingDetails = [550] \<rparr>"
  by (simp add: detailsLoading_def detail_defs fightClub_def)

lemma detailsClosed_state:
  "detailsClosed =
     \<lparr> modal = \<lparr> isOpen = False, body = LoadingDetails, displayed = False, closeTimers = 0 \<rparr>,
       pendingDetails = [550] \<rparr>"
  by (simp add: detailsClosed_def detail_defs fightClub_def)

lemma detailsOfSecond_state:
  "detailsOfSecond =
     \<lparr> modal = \<lparr> isOpen = True,
                 body = MovieDetails (createMovieDetailsContent (bundleOf minimalMovie)),
                 displayed = True, closeTimers = 0 \<rparr>,
       pendingDetails = [550] \<rparr>"
  by (simp add: detailsOfSecond_def detail_defs fightClub_def minimalMovie_def)

lemma details_differ:
  "createMovieDetailsContent (bundleOf fightClub)
     \<noteq> createMovieDetailsContent (bundleOf minimalMovie)"
  by (simp add: createMovieDetailsContent_def bundleOf_def fightClub_def minimalMovie_def js_def)



subsection \<open>A failed fetch and the last page, with the grid in place\<close>

text \<open>
  When the page fetch is rejected, the continuation leaves the result list, the
  cursor, the more-pages flag and the query as they were, so that after a call of
  the load operation whose fetch fails the list and the cursor are what they were
  before the call; it appends the error message to the results grid when the
  document has one. On every way out of the continuation, after a success or a
  failure, the flag is cleared. So an idle controller whose fetch fails fetches the
  same page again on the next proximity trigger.
\<close>

lemma fetch_failure_keeps_state:
  "isLoading (snd (loadSearchResults_resume out s)) = False
   \<and> isLoading (snd (loadMovies_resume out b)) = False
   \<and> searchResults (snd (loadSearchResults_resume Rejected s)) = searchResults s
   \<and> currentPage (snd (loadSearchResults_resume Rejected s)) = currentPage s
   \<and> hasMorePages (snd (loadSearchResults_resume Rejected s)) = hasMorePages s
   \<and> searchQuery (snd (loadSearchResults_resume Rejected s)) = searchQuery s
   \<and> movies (snd (loadMovies_resume Rejected b)) = movies b
   \<and> currentPage (snd (loadMovies_resume Rejected b)) = currentPage b
   \<and> hasMorePages (snd (loadMovies_resume Rejected b)) = hasMorePages b
   \<and> searchResults (search_step (SearchSettle 0 Rejected) (loadSearchResults s)) = searchResults s
   \<and> currentPage (search_step (SearchSettle 0 Rejected) (loadSearchResults s)) = currentPage s
   \<and> movies (browse_step (BrowseSettle 0 Rejected) (loadMovies b)) = movies b
   \<and> currentPage (browse_step (BrowseSettle 0 Rejected) (loadMovies b)) = currentPage b
   \<and> (grid s = Some g \<longrightarrow>
        grid (snd (loadSearchResults_resume Rejected s))
          = Some (g @ [ErrorNode (js ''Failed to search movies. Please try again.'')]))
   \<and> (grid b = Some g' \<longrightarrow>
        grid (snd (loadMovies_resume Rejected b))
          = Some (g' @ [ErrorNode (js ''Failed to load movies. Please try again.'')]))
   \<and> (\<not> isLoading s \<and> hasMorePages s \<and> searchQuery s \<noteq> [] \<and> observing s \<and> inFlight s = [] \<longrightarrow>
        inFlight (search_run [SearchIntersect, SearchSettle 0 Rejected, SearchIntersect] s)
          = [SearchMovies (searchQuery s) (currentPage s)])
   \<and> (\<not> isLoading b \<and> hasMorePages b \<and> inFlight b = [] \<longrightarrow>
        inFlight (browse_run [BrowseIntersect, BrowseSettle 0 Rejected, BrowseIntersect] b)
          = [NowPlayingMovies (currentPage b)])"
proof -
  have 1: "isLoading (snd (loadSearchResults_resume out s)) = False"
    by (rule loadSearchResults_resume_isLoading)
  have 2: "isLoading (snd (loadMovies_resume out b)) = False"
    by (rule loadMovies_resume_isLoading)
  have 3: "searchResults (snd (loadSearchResults_resume Rejected s)) = searchResults s
     \<and> currentPage (snd (loadSearchResults_resume Rejected s)) = currentPage s
     \<and> hasMorePages (snd (loadSearchResults_resume Rejected s)) = hasMorePages s
     \<and> searchQuery (snd (loadSearchResults_resume Rejected s)) = searchQuery s"
    by (simp add: search_rejected split: option.splits)
  have 4: "movies (snd (loadMovies_resume Rejected b)) = movies b
     \<and> currentPage (snd (loadMovies_resume Rejected b)) = currentPage b
     \<and> hasMorePages (snd (loadMovies_resume Rejected b)) = hasMorePages b"
    by (simp add: browse_rejected split: option.splits)
  have 5: "grid s = Some g \<longrightarrow>
        grid (snd (loadSearchResults_resume Rejected s))
          = Some (g @ [ErrorNode (js ''Failed to search movies. Please try again.'')])"
    by (simp add: search_rejected)
  have 6: "grid b = Some g' \<longrightarrow>
        grid (snd (loadMovies_resume Rejected b))
          = Some (g' @ [ErrorNode (js ''Failed to load movies. Please try again.'')])"
    by (simp add: browse_rejected)
  have 7: "\<not> isLoading s \<and> hasMorePages s \<and> searchQuery s \<noteq> [] \<and> observing s \<and> inFlight s = [] \<longrightarrow>
        inFlight (search_run [SearchIntersect, SearchSettle 0 Rejected, SearchIntersect] s)
          = [SearchMovies (searchQuery s) (currentPage s)]"
    using search_retry by blast
  have 8: "\<not> isLoading b \<and> hasMorePages b \<and> inFlight b = [] \<longrightarrow>
        inFlight (browse_run [BrowseIntersect, BrowseSettle 0 Rejected, BrowseIntersect] b)
          = [NowPlayingMovies (currentPage b)]"
    using browse_retry by blast
  note 9 = search_call_rejected [of s] browse_call_rejected [of b]
  from 1 2 3 4 5 6 7 8 9 show ?thesis by blast
qed

lemma fetch_failure_keeps_state_example:
  "grid idleSearch = Some [CardNode (createMovieCard fightClub)]
   \<and> grid idleBrowse = Some [CardNode (createMovieCard fightClub)]
   \<and> \<not> isLoading idleSearch \<and> hasMorePages idleSearch \<and> searchQuery idleSearch \<noteq> []
   \<and> observing idleSearch \<and> inFlight idleSearch = []
   \<and> \<not> isLoading idleBrowse \<and> hasMorePages idleBrowse \<and> inFlight idleBrowse = []
   \<and> searchResults (snd (loadSearchResults_resume Rejected idleSearch)) = [fightClub]
   \<and> currentPage (snd (loadSearchResults_resume Rejected idleSearch)) = 2
   \<and> movies (snd (loadMovies_resume Rejected idleBrowse)) = [fightClub]
   \<and> currentPage (snd (loadMovies_resume Rejected idleBrowse)) = 2
   \<and> searchResults (search_step (SearchSettle 0 Rejected) (loadSearchResults idleSearch))
       = [fightClub]
   \<and> currentPage (search_step (SearchSettle 0 Rejected) (loadSearchResults idleSearch)) = 2
   \<and> movies (browse_step (BrowseSettle 0 Rejected) (loadMovies idleBrowse)) = [fightClub]
   \<and> currentPage (browse_step (BrowseSettle 0 Rejected) (loadMovies idleBrowse)) = 2
   \<and> isLoading (snd (loadSearchResults_resume Rejected idleSearch)) = False
   \<and> isLoading (snd (loadMovies_resume Rejected idleBrowse)) = False
   \<and> grid (snd (loadSearchResults_resume Rejected idleSearch))
       = Some [CardNode (createMovieCard fightClub),
               ErrorNode (js ''Failed to search movies. Please try again.'')]
   \<and> grid (snd (loadMovies_resume Rejected idleBrowse))
       = Some [CardNode (createMovieCard fightClub),
               ErrorNode (js ''Failed to load movies. Please try again.'')]
   \<and> inFlight (search_run [SearchIntersect, SearchSettle 0 Rejected, SearchIntersect] idleSearch)
       = [SearchMovies (js ''dune'') 2]
   \<and> inFlight (browse_run [BrowseIntersect, BrowseSettle 0 Rejected, BrowseIntersect] idleBrowse)
       = [NowPlayingMovies 2]"
  using fetch_failure_keeps_state
    [of Rejected idleSearch idleBrowse "[CardNode (createMovieCard fightClub)]"
        "[CardNode (createMovieCard fightClub)]"]
  by (simp add: idleSearch_state idleBrowse_state js_def)

text \<open>
  A controller has one fetch in flight, for the page of its cursor, and the
  document has its results grid. When that fetch resolves with a page whose number
  is the total number of pages, the more-pages flag becomes false, no call is
  pending, and from then on neither any number of proximity triggers nor a direct
  call of the load operation changes the state: no further remote call is issued.
\<close>

lemma last_page_stops_paging:
  assumes "page data = total_pages data"
  shows "(grid s = Some g \<and> currentPage s = page data \<and> inFlight s = [r] \<longrightarrow>
            hasMorePages (search_step (SearchSettle 0 (Resolved data)) s) = False
          \<and> inFlight (search_step (SearchSettle 0 (Resolved data)) s) = []
          \<and> search_run (replicate n SearchIntersect) (search_step (SearchSettle 0 (Resolved data)) s)
              = search_step (SearchSettle 0 (Resolved data)) s
          \<and> loadSearchResults (search_step (SearchSettle 0 (Resolved data)) s)
              = search_step (SearchSettle 0 (Resolved data)) s)
       \<and> (grid b = Some g' \<and> currentPage b = page data \<and> inFlight b = [r'] \<longrightarrow>
            hasMorePages (browse_step (BrowseSettle 0 (Resolved data)) b) = False
          \<and> inFlight (browse_step (BrowseSettle 0 (Resolved data)) b) = []
          \<and> browse_run (replicate n BrowseIntersect) (browse_step (BrowseSettle 0 (Resolved data)) b)
              = browse_step (BrowseSettle 0 (Resolved data)) b
          \<and> loadMovies (browse_step (BrowseSettle 0 (Resolved data)) b)
              = browse_step (BrowseSettle 0 (Resolved data)) b)"
proof -
  have search: "hasMorePages (search_step (SearchSettle 0 (Resolved data)) s) = False
      \<and> inFlight (search_step (SearchSettle 0 (Resolved data)) s) = []"
    if "grid s = Some g \<and> currentPage s = page data \<and> inFlight s = [r]"
  proof -
    from that assms
    have "hasMorePages (snd (loadSearchResults_resume (Resolved data) (s\<lparr>inFlight := []\<rparr>))) = False"
      by (intro search_last_page [where g = g]) simp_all
    with that show ?thesis
      by (simp add: removeAt_def loadSearchResults_resume_inFlight)
  qed
  have browse: "hasMorePages (browse_step (BrowseSettle 0 (Resolved data)) b) = False
      \<and> inFlight (browse_step (BrowseSettle 0 (Resolved data)) b) = []"
    if "grid b = Some g' \<and> currentPage b = page data \<and> inFlight b = [r']"
  proof -
    from that assms
    have "hasMorePages (snd (loadMovies_resume (Resolved data) (b\<lparr>inFlight := []\<rparr>))) = False"
      by (intro browse_last_page [where g = g']) simp_all
    with that show ?thesis
      by (simp add: removeAt_def loadMovies_resume_inFlight)
  qed
  have idleS: "search_run (replicate n SearchIntersect) x = x \<and> loadSearchResults x = x"
    if "hasMorePages x = False" for x
    using that by (simp add: search_exhausted_idle loadSearchResults_def)
  have idleB: "browse_run (replicate n BrowseIntersect) y = y \<and> loadMovies y = y"
    if "hasMorePages y = False" for y
    using that by (simp add: browse_exhausted_idle loadMovies_def)
  from search browse idleS idleB show ?thesis by blast
qed

lemma last_page_stops_paging_example:
  "page (pageOf [minimalMovie] 3 3) = total_pages (pageOf [minimalMovie] 3 3)
   \<and> currentPage searchAwaitingPage3 = page (pageOf [minimalMovie] 3 3)
   \<and> inFlight searchAwaitingPage3 = [SearchMovies (js ''dune'') 3]
   \<and> currentPage browseAwaitingPage3 = page (pageOf [minimalMovie] 3 3)
   \<and> inFlight browseAwaitingPage3 = [NowPlayingMovies 3]
   \<and> hasMorePages (search_step (SearchSettle 0 (Resolved (pageOf [minimalMovie] 3 3)))
        searchAwaitingPage3) = False
   \<and> issued (search_run (replicate 2 SearchIntersect)
        (search_step (SearchSettle 0 (Resolved (pageOf [minimalMovie] 3 3))) searchAwaitingPage3))
       = [SearchMovies (js ''dune'') 1, SearchMovies (js ''dune'') 2, SearchMovies (js ''dune'') 3]
   \<and> hasMorePages (browse_step (BrowseSettle 0 (Resolved (pageOf [minimalMovie] 3 3)))
        browseAwaitingPage3) = False
   \<and> issued (browse_run (replicate 2 BrowseIntersect)
        (browse_step (BrowseSettle 0 (Resolved (pageOf [minimalMovie] 3 3))) browseAwaitingPage3))
       = [NowPlayingMovies 1, NowPlayingMovies 2, NowPlayingMovies 3]"
  using last_page_stops_paging
    [of "pageOf [minimalMovie] 3 3" searchAwaitingPage3
        "[CardNode (createMovieCard fightClub), CardNode (createMovieCard fightClub)]"
        "SearchMovies (js ''dune'') 3" 2 browseAwaitingPage3
        "[CardNode (createMovieCard fightClub), CardNode (createMovieCard fightClub)]"
        "NowPlayingMovies 3"]
  by (simp add: searchAwaitingPage3_state browseAwaitingPage3_state pageOf_def
                search_defs browse_defs sink_defs)

section \<open>The claims\<close>

text \<open>
  C1. At most one remote page fetch is in flight per feed controller. After any
  sequence of events (for the search controller: query commits, clearing the search,
  proximity triggers and settlements of pending calls, in any order; for the browse
  controller: the continuation of \<open>init\<close>, \<open>showNowPlaying\<close>, proximity triggers and
  settlements), at most one call is pending, and \<open>isLoading\<close> is set exactly while
  one is: set with the call, never cleared before it settles. The guard at the top
  of \<open>loadSearchResults\<close> and \<open>loadMovies\<close> returns at once while the flag is set.
\<close>

theorem C1_single_fetch_in_flight:
  "length (inFlight (search_run es SearchPage_new)) \<le> 1
   \<and> isLoading (search_run es SearchPage_new) = (inFlight (search_run es SearchPage_new) \<noteq> [])
   \<and> length (inFlight (browse_run bs NowPlayingPage_new)) \<le> 1
   \<and> isLoading (browse_run bs NowPlayingPage_new)
       = (inFlight (browse_run bs NowPlayingPage_new) \<noteq> [])
   \<and> loadSearchResults (s\<lparr>isLoading := True\<rparr>) = s\<lparr>isLoading := True\<rparr>
   \<and> loadMovies (b\<lparr>isLoading := True\<rparr>) = b\<lparr>isLoading := True\<rparr>"
proof -
  have "singleFlight SearchPage_new"
    by (simp add: singleFlight_def SearchPage_new_def)
  then have search: "singleFlight (search_run es SearchPage_new)"
    by (rule search_run_singleFlight)
  have "singleFlight NowPlayingPage_new"
    by (simp add: singleFlight_def NowPlayingPage_new_def)
  then have browse: "singleFlight (browse_run bs NowPlayingPage_new)"
    by (rule browse_run_singleFlight)
  have gate: "loadSearchResults (s\<lparr>isLoading := True\<rparr>) = s\<lparr>isLoading := True\<rparr>
      \<and> loadMovies (b\<lparr>isLoading := True\<rparr>) = b\<lparr>isLoading := True\<rparr>"
    by (simp add: loadSearchResults_def loadMovies_def)
  from search browse gate show ?thesis
    by (auto simp: singleFlight_def split: if_splits)
qed

theorem C1_single_fetch_in_flight_witness:
  "length (inFlight (search_run [PerformSearch (js ''dune''), SearchIntersect,
       PerformSearch (js ''alien'')] SearchPage_new)) \<le> 1
   \<and> inFlight (search_run [PerformSearch (js ''dune''), SearchIntersect,
       PerformSearch (js ''alien'')] SearchPage_new) = [SearchMovies (js ''dune'') 1]
   \<and> isLoading (search_run [PerformSearch (js ''dune''), SearchIntersect,
       PerformSearch (js ''alien'')] SearchPage_new)
   \<and> length (inFlight (browse_run [ShowNowPlaying, BrowseInit, BrowseIntersect]
       NowPlayingPage_new)) \<le> 1
   \<and> inFlight (browse_run [ShowNowPlaying, BrowseInit, BrowseIntersect] NowPlayingPage_new)
       = [NowPlayingMovies 1]
   \<and> isLoading (browse_run [ShowNowPlaying, BrowseInit, BrowseIntersect] NowPlayingPage_new)"
  using C1_single_fetch_in_flight
    [of "[PerformSearch (js ''dune''), SearchIntersect, PerformSearch (js ''alien'')]"
        "[ShowNowPlaying, BrowseInit, BrowseIntersect]" idleSearch idleBrowse]
  by (simp add: search_defs browse_defs js_def)

text \<open>
  C2, as the code has it. When the aggregation of a detail view settles, its result
  is applied without any check: \<open>setContent\<close> replaces the body of the modal by the
  details (or by the error message when a request failed), whatever the modal shows
  and whether or not it is open; the open flag is left as it is. Nothing compares
  the item or looks for the loading placeholder.
\<close>

theorem C2_late_result_applied:
  assumes "i < length (pendingDetails v)"
  shows "body (modal (detail_step (DetailsSettle i (AllResolved b)) v))
           = MovieDetails (createMovieDetailsContent b)
       \<and> body (modal (detail_step (DetailsSettle i SomeRejected) v)) = DetailsError
       \<and> isOpen (modal (detail_step (DetailsSettle i out) v)) = isOpen (modal v)"
  using assms
  by (simp add: openMovieDetails_resume_def setContent_def split: detailOutcome.splits)

theorem C2_late_result_applied_witness:
  "0 < length (pendingDetails detailsClosed)
   \<and> isOpen (modal detailsClosed) = False
   \<and> body (modal (detail_step (DetailsSettle 0 (AllResolved (bundleOf fightClub))) detailsClosed))
       = MovieDetails (createMovieDetailsContent (bundleOf fightClub))
   \<and> body (modal (detail_step (DetailsSettle 0 SomeRejected) detailsClosed)) = DetailsError
   \<and> isOpen (modal (detail_step (DetailsSettle 0 SomeRejected) detailsClosed)) = False"
  using C2_late_result_applied [of 0 detailsClosed "bundleOf fightClub" SomeRejected]
  by (simp add: detailsClosed_state)

text \<open>
  C2, as the specification states it, does not hold. The details of \<open>fightClub\<close> arrive after its
  modal was closed and \<open>minimalMovie\<close> was opened and shown: they replace the
  details of \<open>minimalMovie\<close>. They also arrive in a closed modal whose body still
  holds the placeholder, and replace it.
\<close>

theorem C2_late_result_overwrites:
  "body (modal detailsOfSecond) = MovieDetails (createMovieDetailsContent (bundleOf minimalMovie))
   \<and> body (modal (detail_step (DetailsSettle 0 (AllResolved (bundleOf fightClub))) detailsOfSecond))
       = MovieDetails (createMovieDetailsContent (bundleOf fightClub))
   \<and> createMovieDetailsContent (bundleOf fightClub)
       \<noteq> createMovieDetailsContent (bundleOf minimalMovie)
   \<and> isOpen (modal detailsClosed) = False
   \<and> body (modal detailsClosed) = LoadingDetails
   \<and> body (modal (detail_step (DetailsSettle 0 (AllResolved (bundleOf fightClub))) detailsClosed))
       = MovieDetails (createMovieDetailsContent (bundleOf fightClub))"
  by (simp add: detailsOfSecond_state detailsClosed_state details_differ
                openMovieDetails_resume_def setContent_def removeAt_def)


text \<open>
  C4, at an input where the code departs from it. The query \<open>alien\<close> is committed
  while page 1 of \<open>dune\<close> is pending: the reset happens, but the guard of
  \<open>loadSearchResults\<close> returns because the flag is set, so no page of \<open>alien\<close> is
  requested. When the page of \<open>dune\<close> arrives it is appended to the list that was
  reset for \<open>alien\<close>, and the next proximity trigger asks for page 2 of \<open>alien\<close>.
\<close>

theorem C4_stale_page_kept:
  "searchQuery staleSearch = js ''alien''
   \<and> searchResults staleSearch = [fightClub]
   \<and> grid staleSearch = Some [CardNode (createMovieCard fightClub)]
   \<and> issued staleSearch = [SearchMovies (js ''dune'') 1]
   \<and> issued (search_step SearchIntersect staleSearch)
       = [SearchMovies (js ''dune'') 1, SearchMovies (js ''alien'') 2]"
  by (simp add: staleSearch_state searchInfiniteScroll_def loadSearchResults_def js_def)


text \<open>
  C6. Committing the query that is already active changes nothing: no reset, no
  remote call. So a second commit of the same query is without effect, whether it
  comes at once or after the fetch of the first commit has settled, and two commits
  in a row of a non-empty query that is new to an idle controller issue exactly one
  remote call, for page 1.
\<close>

theorem C6_same_query_noop:
  "performSearch (searchQuery s) s = s
   \<and> performSearch q (performSearch q s) = performSearch q s
   \<and> performSearch q (search_step (SearchSettle i out) (performSearch q s))
       = search_step (SearchSettle i out) (performSearch q s)
   \<and> (q \<noteq> [] \<and> q \<noteq> searchQuery s \<and> \<not> isLoading s \<longrightarrow>
        issued (performSearch q (performSearch q s)) = issued s @ [SearchMovies q 1])"
proof -
  have 1: "performSearch (searchQuery s) s = s"
    by (simp add: performSearch_same)
  have 2: "performSearch q (performSearch q s) = performSearch q s"
    by (rule performSearch_same) (simp add: performSearch_query)
  have 3: "performSearch q (search_step (SearchSettle i out) (performSearch q s))
       = search_step (SearchSettle i out) (performSearch q s)"
    by (rule performSearch_same) (simp only: search_settle_query performSearch_query)
  have 4: "q \<noteq> [] \<and> q \<noteq> searchQuery s \<and> \<not> isLoading s \<longrightarrow>
        issued (performSearch q (performSearch q s)) = issued s @ [SearchMovies q 1]"
    by (simp add: 2 performSearch_fetches_first_page)
  from 1 2 3 4 show ?thesis by blast
qed

theorem C6_same_query_noop_witness:
  "js ''dune'' \<noteq> [] \<and> js ''dune'' \<noteq> searchQuery SearchPage_new \<and> \<not> isLoading SearchPage_new
   \<and> issued (performSearch (js ''dune'') (performSearch (js ''dune'') SearchPage_new))
       = [SearchMovies (js ''dune'') 1]
   \<and> performSearch (js ''dune'') (performSearch (js ''dune'') SearchPage_new)
       = performSearch (js ''dune'') SearchPage_new
   \<and> performSearch (js ''dune'') idleSearch = idleSearch"
proof -
  have fresh: "js ''dune'' \<noteq> [] \<and> js ''dune'' \<noteq> searchQuery SearchPage_new
      \<and> \<not> isLoading SearchPage_new"
    by (simp add: SearchPage_new_def js_def)
  have none: "issued SearchPage_new = []"
    by (simp add: SearchPage_new_def)
  have active: "searchQuery idleSearch = js ''dune''"
    by (simp add: idleSearch_state)
  from fresh C6_same_query_noop [of SearchPage_new "js ''dune''" 0 Rejected]
  have twice: "issued (performSearch (js ''dune'') (performSearch (js ''dune'') SearchPage_new))
        = issued SearchPage_new @ [SearchMovies (js ''dune'') 1]
      \<and> performSearch (js ''dune'') (performSearch (js ''dune'') SearchPage_new)
        = performSearch (js ''dune'') SearchPage_new"
    by blast
  from C6_same_query_noop [of idleSearch "js ''dune''" 0 Rejected]
  have "performSearch (searchQuery idleSearch) idleSearch = idleSearch"
    by blast
  with active have again: "performSearch (js ''dune'') idleSearch = idleSearch"
    by simp
  from twice
  have "issued (performSearch (js ''dune'') (performSearch (js ''dune'') SearchPage_new))
        = issued SearchPage_new @ [SearchMovies (js ''dune'') 1]"
    by blast
  then have once: "issued (performSearch (js ''dune'') (performSearch (js ''dune'') SearchPage_new))
        = [SearchMovies (js ''dune'') 1]"
    by (simp only: none append_Nil)
  from fresh once twice again show ?thesis
    by blast
qed

text \<open>
  C7, at an input where the code departs from it. \<open>MovieCard.formatRating\<close> prints
  a score with one decimal and \<open>N/A\<close> for \<open>null\<close>, \<open>undefined\<close> and \<open>NaN\<close>; for 7.555
  (the decimal, and the double nearest to it) it gives 7.6 and for 0 it gives 0.0.
  The card of the two feed controllers prints the score 0 as \<open>N/A\<close>.
\<close>

theorem C7_zero_rating_on_feed_card:
  "card_rating (createMovieCard (fightClub\<lparr>vote_average := Number (Finite 0)\<rparr>)) = js ''N/A''
   \<and> formatRating (vote_average (fightClub\<lparr>vote_average := Number (Finite 0)\<rparr>)) = js ''0.0''
   \<and> formatRating (Number (Finite (7555 / 1000))) = js ''7.6''
   \<and> formatRating (Number (Finite (1063271724524503 / 140737488355328))) = js ''7.6''
   \<and> card_rating (createMovieCard (fightClub\<lparr>vote_average := Number (Finite (7555 / 1000))\<rparr>))
       = js ''7.6''
   \<and> formatRating Null = js ''N/A''
   \<and> formatRating Undefined = js ''N/A''
   \<and> formatRating (Number NaN) = js ''N/A''"
  by code_simp




text \<open>
  C9. \<open>Modal.open\<close> on an open modal changes nothing: the body, the flag and the
  rest of the modal stay as they are. So \<open>openMovieDetails\<close> for a second item, while
  the modal is open, does not put the loading placeholder into the body.
\<close>

theorem C9_open_when_open:
  "(isOpen m \<longrightarrow> Modal_open content m = m)
   \<and> (isOpen (modal v) \<longrightarrow> modal (openMovieDetails mv v) = modal v)"
  by (simp add: Modal_open_def openMovieDetails_def)

theorem C9_open_when_open_witness:
  "isOpen (modal detailsOfSecond)
   \<and> Modal_open LoadingDetails (modal detailsOfSecond) = modal detailsOfSecond
   \<and> modal (openMovieDetails fightClub detailsOfSecond) = modal detailsOfSecond
   \<and> body (modal (openMovieDetails fightClub detailsOfSecond))
       = MovieDetails (createMovieDetailsContent (bundleOf minimalMovie))"
  using C9_open_when_open [of "modal detailsOfSecond" LoadingDetails detailsOfSecond fightClub]
  by (simp add: detailsOfSecond_state)

text \<open>
  C10. \<open>escapeHtml\<close> gives the empty string for \<open>null\<close>, \<open>undefined\<close> and the empty
  string, and otherwise replaces each code unit that is an ampersand, an angle
  bracket or a quote by its entity and keeps every other code unit. Its result holds
  no angle bracket and no quote, and every ampersand in it opens an entity. The
  title (as alternative text and as heading) and the overview in the markup of a
  \<open>MovieCard\<close> are such results.
\<close>

theorem C10_escapeHtml:
  "escapeHtml None = [] \<and> escapeHtml (Some []) = []
   \<and> escapeHtml (Some u) = concat (map entity u)
   \<and> escaped (escapeHtml t)
   \<and> set (escapeHtml t) \<inter> {0x3C, 0x3E, 0x22, 0x27} = {}
   \<and> img_alt (generateHTML m opts) = escapeHtml (title m)
   \<and> title_h3 (generateHTML m opts) = escapeHtml (title m)
   \<and> escaped (img_alt (generateHTML m opts))
   \<and> escaped (title_h3 (generateHTML m opts))
   \<and> (showOverview opts \<longrightarrow>
        (\<exists>h. overview_p (generateHTML m opts) = Some h \<and> escaped h
             \<and> h = escapeHtml (Some (truncateOverview (overview m) (overviewLength opts)))))"
proof -
  have 1: "escapeHtml None = [] \<and> escapeHtml (Some []) = []"
    by (simp add: escapeHtml_def)
  have 2: "escapeHtml (Some u) = concat (map entity u)"
    by (rule escapeHtml_entities)
  have 3: "escaped (escapeHtml t)"
    by (rule escapeHtml_escaped)
  have 4: "set (escapeHtml t) \<inter> {0x3C, 0x3E, 0x22, 0x27} = {}"
    by (rule escapeHtml_no_markup)
  have 5: "img_alt (generateHTML m opts) = escapeHtml (title m)
           \<and> title_h3 (generateHTML m opts) = escapeHtml (title m)
           \<and> escaped (img_alt (generateHTML m opts))
           \<and> escaped (title_h3 (generateHTML m opts))"
    by (simp add: generateHTML_def Let_def escapeHtml_escaped)
  have 6: "showOverview opts \<longrightarrow>
        (\<exists>h. overview_p (generateHTML m opts) = Some h \<and> escaped h
             \<and> h = escapeHtml (Some (truncateOverview (overview m) (overviewLength opts))))"
    by (simp add: generateHTML_def Let_def escapeHtml_escaped)
  from 1 2 3 4 5 6 show ?thesis by blast
qed

theorem C10_escapeHtml_witness:
  "showOverview defaultOptions
   \<and> escapeHtml (Some markupText) = js ''&lt;&amp;&quot;&#039;&gt;A''
   \<and> escaped (js ''&lt;&amp;&quot;&#039;&gt;A'')
   \<and> title_h3 (generateHTML (fightClub\<lparr>title := Some markupText, overview := Some markupText\<rparr>)
        defaultOptions) = js ''&lt;&amp;&quot;&#039;&gt;A''
   \<and> overview_p (generateHTML (fightClub\<lparr>title := Some markupText, overview := Some markupText\<rparr>)
        defaultOptions) = Some (js ''&lt;&amp;&quot;&#039;&gt;A'')"
proof -
  let ?m = "fightClub\<lparr>title := Some markupText, overview := Some markupText\<rparr>"
  note inst = C10_escapeHtml [of markupText "Some markupText" ?m defaultOptions]
  have shown: "showOverview defaultOptions"
    by (simp add: defaultOptions_def)
  have entities: "concat (map entity markupText) = js ''&lt;&amp;&quot;&#039;&gt;A''"
    by (simp add: markupText_def entity_def js_def)
  have short: "truncateOverview (overview ?m) (overviewLength defaultOptions) = markupText"
    by (simp add: truncateOverview_def defaultOptions_def markupText_def)
  from inst entities have a: "escapeHtml (Some markupText) = js ''&lt;&amp;&quot;&#039;&gt;A''"
    by simp
  from inst have "escaped (escapeHtml (Some markupText))"
    by blast
  with a have b: "escaped (js ''&lt;&amp;&quot;&#039;&gt;A'')"
    by simp
  from inst have "title_h3 (generateHTML ?m defaultOptions) = escapeHtml (title ?m)"
    by blast
  with a have c: "title_h3 (generateHTML ?m defaultOptions) = js ''&lt;&amp;&quot;&#039;&gt;A''"
    by simp
  from inst shown
  have "\<exists>h. overview_p (generateHTML ?m defaultOptions) = Some h \<and> escaped h
          \<and> h = escapeHtml (Some (truncateOverview (overview ?m) (overviewLength defaultOptions)))"
    by blast
  with short a
  have d: "overview_p (generateHTML ?m defaultOptions) = Some (js ''&lt;&amp;&quot;&#039;&gt;A'')"
    by auto
  from shown a b c d show ?thesis
    by blast
qed

end
